theory Spec2Isabelle
  imports Complex_Main "HOL-Library.Finite_Map"
begin

section \<open>The training step of kauldron (\<^verbatim>\<open>kauldron/train/train_step.py\<close>)\<close>

text \<open>
  The module defines two frozen dataclasses (\<^verbatim>\<open>TrainState\<close>, \<^verbatim>\<open>Auxiliaries\<close>), two
  helpers that merge accumulator states, and two configuration objects
  (\<^verbatim>\<open>ModelWithAux\<close>, \<^verbatim>\<open>TrainStep\<close>) whose methods call a flax model, an optax optimizer
  and jax. Each dataclass is a record, each method a function of \<open>self\<close> and its
  arguments, each raise an \<open>Inl\<close>. What the module imports and does not define (the
  model, the optimizer, the RNG streams, \<^verbatim>\<open>jax.grad\<close>, the loss computation, the
  \<open>merge\<close> method of an accumulator state) is a parameter: a field of the object that
  holds it in the source, or a field of the record \<open>lib\<close> for module-level functions.
  These parameters are total functions: a failure inside the model or the optimizer is
  not part of this development. \<^verbatim>\<open>jax.named_call\<close> returns the function it wraps and is
  left out. \<^verbatim>\<open>jax_utils.jit\<close> is not: the compiled \<^verbatim>\<open>step\<close> counts in int32, carries
  \<open>training_time_hours\<close> as a float32, works on traced arrays, which have no truth
  value, and is given the buffers of its argument \<open>state\<close>.
\<close>

subsection \<open>Python values\<close>

datatype error =
    KeyError
  | RootCfgNotResolved
  | ValueError
  | TracerBoolConversionError
  | OverflowError

text \<open>
  A PyTree: \<^verbatim>\<open>None\<close>, an array leaf, a dict (flax parameters are nested dicts) or a
  tuple (optax states are tuples). A dict is a finite map: Python's \<^verbatim>\<open>==\<close> on dicts
  does not look at the insertion order.
\<close>

datatype 'a pytree =
    PNone
  | Leaf 'a
  | PDict "(string, 'a pytree) fmap"
  | PTuple "'a pytree list"

fun is_leaf :: "'a pytree \<Rightarrow> bool" where
  "is_leaf (Leaf a) = True"
| "is_leaf t = False"

text \<open>
  Python's truth value, \<^verbatim>\<open>bool(x)\<close>, which \<^verbatim>\<open>x or y\<close> tests: \<^verbatim>\<open>None\<close> and the empty
  containers are falsy, the other containers truthy. The truth value of an array is
  decided by the array library and may not exist: \<open>lb\<close> is its \<^verbatim>\<open>__bool__\<close>, which
  raises \<^verbatim>\<open>ValueError\<close> for an array of more than one element. Inside a compiled
  function every array is traced and \<^verbatim>\<open>bool\<close> of it raises
  \<^verbatim>\<open>TracerBoolConversionError\<close>: that is \<open>traced_bool\<close>.
\<close>

fun truthy :: "('a \<Rightarrow> error + bool) \<Rightarrow> 'a pytree \<Rightarrow> error + bool" where
  "truthy lb PNone = Inr False"
| "truthy lb (Leaf a) = lb a"
| "truthy lb (PDict d) = Inr (fmdom d \<noteq> {||})"
| "truthy lb (PTuple xs) = Inr (xs \<noteq> [])"

definition traced_bool :: "'a \<Rightarrow> error + bool" where
  "traced_bool a = Inl TracerBoolConversionError"

text \<open>\<^verbatim>\<open>x or y\<close>: \<open>x\<close> if it is truthy, else \<open>y\<close>; the error of \<^verbatim>\<open>bool(x)\<close> if it raises.\<close>

definition py_or ::
  "('a \<Rightarrow> error + bool) \<Rightarrow> 'a pytree \<Rightarrow> 'a pytree \<Rightarrow> error + 'a pytree" where
  "py_or lb x y =
     (case truthy lb x of
        Inl e \<Rightarrow> Inl e
      | Inr b \<Rightarrow> Inr (if b then x else y))"

text \<open>
  The int32 values, and the int32 that an integer wraps to (two's complement), as the
  sum of two int32 arrays does.
\<close>

definition int32_range :: "int \<Rightarrow> bool" where
  "int32_range n \<longleftrightarrow> - (2 ^ 31) \<le> n \<and> n < 2 ^ 31"

definition int32 :: "int \<Rightarrow> int" where
  "int32 n = (n + 2 ^ 31) mod 2 ^ 32 - 2 ^ 31"

text \<open>
  \<^verbatim>\<open>flax.core.freeze\<close> and \<^verbatim>\<open>flax.core.unfreeze\<close> turn a dict into a \<^verbatim>\<open>FrozenDict\<close> with
  the same entries and back; the values here do not tell the two apart.
\<close>

definition freeze :: "'x \<Rightarrow> 'x" where
  "freeze x = x"

definition unfreeze :: "'x \<Rightarrow> 'x" where
  "unfreeze x = x"

subsection \<open>Context\<close>

text \<open>
  Modelled from the spec: \<^verbatim>\<open>core.Context\<close> is declared in \<^verbatim>\<open>kauldron/utils/core.py\<close>,
  which is not among the sources. Section 3 of the spec lists what it carries: step,
  batch, params, predictions, captured intermediate activations, per-loss accumulator
  states, gradients and optimizer updates; it is an immutable record built up by
  \<^verbatim>\<open>replace\<close>. A field that has not been set yet holds \<open>PNone\<close> (the empty dict for
  \<open>loss_states\<close>).
\<close>

record ('a, 'st) Context =
  step :: int
  batch :: "'a pytree"
  params :: "'a pytree"
  preds :: "'a pytree"
  interms :: "'a pytree"
  loss_states :: "(string, 'st) fmap"
  grads :: "'a pytree"
  updates :: "'a pytree"

text \<open>\<^verbatim>\<open>core.Context(step=..., batch=..., params=...)\<close>: the other fields are unset.\<close>

definition Context_new :: "int \<Rightarrow> 'a pytree \<Rightarrow> 'a pytree \<Rightarrow> ('a, 'st) Context" where
  "Context_new s b p =
     \<lparr>Context.step = s, batch = b, Context.params = p, preds = PNone, interms = PNone,
      Context.loss_states = fmempty, grads = PNone, updates = PNone\<rparr>"

subsection \<open>TrainState\<close>

record 'a TrainState =
  step :: int
  params :: "'a pytree"
  opt_state :: "'a pytree"
  training_time_hours :: real

text \<open>
  \<^verbatim>\<open>TrainState.next\<close>. \<^verbatim>\<open>self.replace(step=..., params=..., opt_state=...)\<close> is
  \<^verbatim>\<open>dataclasses.replace\<close>: the record update. An argument left out is \<^verbatim>\<open>None\<close>. The two
  \<^verbatim>\<open>or\<close> are evaluated in order and the first that raises ends the call. The step is a
  Python \<^verbatim>\<open>int\<close>, as the field is annotated, and \<open>+\<close> does not wrap.
\<close>

definition TrainState_next ::
  "('a \<Rightarrow> error + bool) \<Rightarrow> 'a TrainState \<Rightarrow> 'a pytree \<Rightarrow> 'a pytree
     \<Rightarrow> error + 'a TrainState" where
  "TrainState_next lb self new_params new_opt_state =
     (let step' = step self + 1
      in case py_or lb new_params (params self) of
           Inl e \<Rightarrow> Inl e
         | Inr new_params' \<Rightarrow>
             (case py_or lb new_opt_state (opt_state self) of
                Inl e \<Rightarrow> Inl e
              | Inr new_opt_state' \<Rightarrow>
                  Inr (self\<lparr>step := step', params := new_params',
                            opt_state := new_opt_state'\<rparr>)))"

subsection \<open>Auxiliaries\<close>

record ('st, 'kw) Auxiliaries =
  loss_states :: "(string, 'st) fmap"
  metric_states :: "(string, 'st) fmap"
  summary_kwargs :: "(string, 'kw) fmap"

text \<open>\<^verbatim>\<open>Auxiliaries()\<close>: every field is built by its \<^verbatim>\<open>default_factory\<close>, \<^verbatim>\<open>dict\<close>.\<close>

definition Auxiliaries_new :: "('st, 'kw) Auxiliaries" where
  "Auxiliaries_new =
     \<lparr>loss_states = fmempty, metric_states = fmempty, summary_kwargs = fmempty\<rparr>"

text \<open>
  Modelled from the spec: \<^verbatim>\<open>epy.zip_dict\<close> belongs to the etils library and is not among
  the sources. Its contract is the one the spec states for \<open>merge\<close> (sections 4.2 and 7):
  the dicts must have identical key sets, else the call fails with \<^verbatim>\<open>KeyError\<close>;
  otherwise it yields, for each key of the first dict, the tuple of the values the
  dicts hold under that key. The call is \<open>zip_dict(d0, *ds)\<close>; the tuple is written as
  its first component and the list of the others, since it has one component per dict.
\<close>

definition zip_dict ::
  "('k, 'v) fmap \<Rightarrow> ('k, 'v) fmap list \<Rightarrow> error + ('k, 'v \<times> 'v list) fmap" where
  "zip_dict d0 ds =
     (if list_all (\<lambda>d. fmdom d = fmdom d0) ds
      then Inr (fmmap_keys (\<lambda>k v. (v, map (\<lambda>d. the (fmlookup d k)) ds)) d0)
      else Inl KeyError)"

text \<open>
  \<^verbatim>\<open>_reduce_states_single\<close>. \<open>mrg x y\<close> is \<^verbatim>\<open>x.merge(y)\<close> of the accumulator state; the
  loop over \<^verbatim>\<open>rest_states\<close> is a left fold.
\<close>

fun reduce_states_single :: "('st \<Rightarrow> 'st \<Rightarrow> 'st) \<Rightarrow> 'st \<times> 'st list \<Rightarrow> 'st" where
  "reduce_states_single mrg (final_state, rest_states) = foldl mrg final_state rest_states"

text \<open>\<^verbatim>\<open>_reduce_states\<close>: the dict comprehension over \<^verbatim>\<open>epy.zip_dict(*all_states)\<close>.\<close>

definition reduce_states ::
  "('st \<Rightarrow> 'st \<Rightarrow> 'st) \<Rightarrow> (string, 'st) fmap \<Rightarrow> (string, 'st) fmap list
     \<Rightarrow> error + (string, 'st) fmap" where
  "reduce_states mrg d0 ds =
     (case zip_dict d0 ds of
        Inl e \<Rightarrow> Inl e
      | Inr z \<Rightarrow> Inr (fmmap (reduce_states_single mrg) z))"

text \<open>
  \<^verbatim>\<open>Auxiliaries.merge\<close>: the two keyword arguments of \<^verbatim>\<open>self.replace\<close> are evaluated in
  order, then \<open>self\<close> is copied with these two fields replaced.
\<close>

definition Auxiliaries_merge ::
  "('st \<Rightarrow> 'st \<Rightarrow> 'st) \<Rightarrow> ('st, 'kw) Auxiliaries \<Rightarrow> ('st, 'kw) Auxiliaries
     \<Rightarrow> error + ('st, 'kw) Auxiliaries" where
  "Auxiliaries_merge mrg self other =
     (case reduce_states mrg (loss_states self) [loss_states other] of
        Inl e \<Rightarrow> Inl e
      | Inr ls \<Rightarrow>
          (case reduce_states mrg (metric_states self) [metric_states other] of
             Inl e \<Rightarrow> Inl e
           | Inr ms \<Rightarrow> Inr (self\<lparr>loss_states := ls, metric_states := ms\<rparr>)))"

subsection \<open>Collaborators\<close>

text \<open>
  A flax module, by its two entry points. \<open>module_init rngs (args, kwargs) method
  is_training_property\<close> is \<^verbatim>\<open>model.init(...)\<close>, the dict of the variable collections of
  the module: it has the key \<^verbatim>\<open>"params"\<close> if the module has parameters. \<open>module_apply
  params (args, kwargs) rngs capture_intermediates is_training_property\<close> is
  \<^verbatim>\<open>model.apply({"params": params}, ...)\<close> with the second component already
  subscripted by \<^verbatim>\<open>"intermediates"\<close>, the collection that \<^verbatim>\<open>capture_intermediates=True\<close>
  asks for.
\<close>

type_synonym 'a model_inputs = "'a pytree list \<times> (string, 'a pytree) fmap"

record ('a, 'r) Module =
  module_init ::
    "'r \<Rightarrow> 'a model_inputs \<Rightarrow> string option \<Rightarrow> bool \<Rightarrow> (string, 'a pytree) fmap"
  module_apply :: "'a pytree \<Rightarrow> 'a model_inputs \<Rightarrow> 'r \<Rightarrow> bool \<Rightarrow> bool \<Rightarrow> 'a pytree \<times> 'a pytree"

text \<open>\<^verbatim>\<open>optax.GradientTransformation\<close>: the pair of \<^verbatim>\<open>init\<close> and \<^verbatim>\<open>update\<close>.\<close>

record 'a Optimizer =
  opt_init :: "'a pytree \<Rightarrow> 'a pytree"
  opt_update :: "'a pytree \<Rightarrow> 'a pytree \<Rightarrow> 'a pytree \<Rightarrow> 'a pytree \<times> 'a pytree"

text \<open>\<^verbatim>\<open>rngs_lib.RngStreams\<close>: \<^verbatim>\<open>init_rngs()\<close> and \<^verbatim>\<open>train_rngs(step)\<close>.\<close>

record 'r RngStreams =
  init_rngs :: 'r
  train_rngs :: "int \<Rightarrow> 'r"

text \<open>
  The module-level functions the file imports: \<^verbatim>\<open>data_utils.mock_batch_from_elem_spec\<close>,
  \<^verbatim>\<open>data_utils.get_model_inputs\<close>, \<^verbatim>\<open>kd_losses.compute_losses\<close>, the derivative of a
  scalar function of the parameters that \<^verbatim>\<open>jax.grad\<close> computes and
  \<^verbatim>\<open>optax.apply_updates\<close>; and of the runtime under \<^verbatim>\<open>jax_utils.jit\<close>, \<open>float32 x\<close>, the
  float32 that a Python float \<open>x\<close> is turned into when it is passed to a compiled
  function, and \<open>donation\<close>, whether the backend takes donated buffers.
\<close>

record ('a, 'st, 'r, 'e, 'ls) lib =
  mock_batch_from_elem_spec :: "'e \<Rightarrow> 'a pytree"
  get_model_inputs :: "('a, 'r) Module \<Rightarrow> ('a, 'st) Context \<Rightarrow> 'a model_inputs"
  compute_losses :: "'ls \<Rightarrow> ('a, 'st) Context \<Rightarrow> real \<times> (string, 'st) fmap"
  grad :: "('a pytree \<Rightarrow> real) \<Rightarrow> 'a pytree \<Rightarrow> 'a pytree"
  apply_updates :: "'a pytree \<Rightarrow> 'a pytree \<Rightarrow> 'a pytree"
  float32 :: "real \<Rightarrow> real"
  donation :: bool

text \<open>
  \<^verbatim>\<open>jax.grad(f, argnums=0, has_aux=True)\<close>: \<open>f\<close> returns a pair of a scalar and auxiliary
  data; the result maps the first argument to the gradient of the scalar there and the
  auxiliary data of that same evaluation of \<open>f\<close>.
\<close>

definition jax_grad_has_aux ::
  "(('p \<Rightarrow> real) \<Rightarrow> 'p \<Rightarrow> 'g) \<Rightarrow> ('p \<Rightarrow> real \<times> 'c) \<Rightarrow> 'p \<Rightarrow> 'g \<times> 'c" where
  "jax_grad_has_aux D f x = (D (\<lambda>p. fst (f p)) x, snd (f x))"

subsection \<open>Configuration objects\<close>

text \<open>
  Modelled from the spec: \<^verbatim>\<open>config_util.UpdateFromRootCfg\<close>, the base class of
  \<^verbatim>\<open>ModelWithAux\<close> and \<^verbatim>\<open>TrainStep\<close>, is not among the sources. Section 7 (a) of the
  spec: an operation invoked before the references to the root configuration (the
  \<^verbatim>\<open>ROOT_CFG_REF\<close> defaults of the fields) are bound fails fast with an explicit
  assertion. \<open>root_cfg_resolved\<close> says whether \<^verbatim>\<open>update_from_root_cfg\<close> has bound them;
  the other fields of an object hold its collaborators once it has.
\<close>

record UpdateFromRootCfg =
  root_cfg_resolved :: bool

definition assert_root_cfg_resolved :: "'z UpdateFromRootCfg_scheme \<Rightarrow> error + unit" where
  "assert_root_cfg_resolved self =
     (if root_cfg_resolved self then Inr () else Inl RootCfgNotResolved)"

text \<open>
  A metric is held by its method \<^verbatim>\<open>get_state_from_context\<close> and a summary by its method
  \<^verbatim>\<open>gather_kwargs\<close>; the losses are only handed to \<^verbatim>\<open>compute_losses\<close>.
\<close>

record ('a, 'st, 'kw, 'r, 'ls) ModelWithAux = UpdateFromRootCfg +
  model :: "('a, 'r) Module"
  losses :: 'ls
  metrics :: "(string, ('a, 'st) Context \<Rightarrow> 'st) fmap"
  summaries :: "(string, ('a, 'st) Context \<Rightarrow> 'kw) fmap"

record ('a, 'st, 'kw, 'r, 'ls) TrainStep = UpdateFromRootCfg +
  model_with_aux :: "('a, 'st, 'kw, 'r, 'ls) ModelWithAux"
  optimizer :: "'a Optimizer"
  rng_streams :: "'r RngStreams"

subsection \<open>ModelWithAux\<close>

text \<open>
  \<^verbatim>\<open>ModelWithAux.init\<close>. The subscript \<^verbatim>\<open>["params"]\<close> raises \<^verbatim>\<open>KeyError\<close> on the variables
  of a module that has no parameters.
\<close>

definition ModelWithAux_init ::
  "('a, 'st, 'r, 'e, 'ls) lib \<Rightarrow> ('a, 'st, 'kw, 'r, 'ls) ModelWithAux \<Rightarrow> 'r \<Rightarrow> 'e
     \<Rightarrow> string option \<Rightarrow> error + 'a pytree" where
  "ModelWithAux_init L self rngs elem_spec model_method =
     (case assert_root_cfg_resolved self of
        Inl e \<Rightarrow> Inl e
      | Inr _ \<Rightarrow>
          (let mock_batch = mock_batch_from_elem_spec L elem_spec;
               context = Context_new 0 mock_batch PNone;
               inputs = get_model_inputs L (model self) context;
               variables = module_init (model self) rngs inputs model_method True
           in case fmlookup variables ''params'' of
                None \<Rightarrow> Inl KeyError
              | Some params' \<Rightarrow> Inr (unfreeze params')))"

definition ModelWithAux_forward ::
  "('a, 'st, 'r, 'e, 'ls) lib \<Rightarrow> ('a, 'st, 'kw, 'r, 'ls) ModelWithAux \<Rightarrow> 'a pytree
     \<Rightarrow> 'a pytree \<Rightarrow> 'r \<Rightarrow> int \<Rightarrow> bool \<Rightarrow> real \<times> ('a, 'st) Context" where
  "ModelWithAux_forward L self params' batch' rngs step' is_training =
     (let context = Context_new step' batch' params';
          inputs = get_model_inputs L (model self) context;
          (preds', intermediates) = module_apply (model self) params' inputs rngs True is_training;
          context = context\<lparr>preds := preds', interms := intermediates\<rparr>;
          (loss_total, loss_states') = compute_losses L (losses self) context
      in (loss_total, context\<lparr>Context.loss_states := loss_states'\<rparr>))"

text \<open>
  \<^verbatim>\<open>get_aux\<close>. \<^verbatim>\<open>jax.tree_util.tree_map\<close> over the dict of metrics and the dict
  comprehension over the summaries both keep the keys and map the values.
\<close>

definition ModelWithAux_get_aux ::
  "('a, 'st, 'kw, 'r, 'ls) ModelWithAux \<Rightarrow> ('a, 'st) Context \<Rightarrow> bool \<Rightarrow> bool \<Rightarrow> bool
     \<Rightarrow> ('st, 'kw) Auxiliaries" where
  "ModelWithAux_get_aux self context return_losses return_metrics return_summaries =
     (let aux = Auxiliaries_new;
          aux = (if return_losses
                 then aux\<lparr>loss_states := Context.loss_states context\<rparr> else aux);
          aux = (if return_metrics
                 then aux\<lparr>metric_states := fmmap (\<lambda>m. m context) (metrics self)\<rparr> else aux);
          aux = (if return_summaries
                 then aux\<lparr>summary_kwargs := fmmap (\<lambda>summary. summary context) (summaries self)\<rparr>
                 else aux)
      in aux)"

subsection \<open>TrainStep\<close>

text \<open>
  \<^verbatim>\<open>TrainStep._init\<close>, the body that is compiled. The state it returns holds the
  constants 0, an int32, and 0.0, a float32.
\<close>

definition TrainStep__init ::
  "('a, 'st, 'r, 'e, 'ls) lib \<Rightarrow> ('a, 'st, 'kw, 'r, 'ls) TrainStep \<Rightarrow> 'e \<Rightarrow> string option
     \<Rightarrow> error + 'a TrainState" where
  "TrainStep__init L self elem_spec model_method =
     (case ModelWithAux_init L (model_with_aux self) (init_rngs (rng_streams self))
             elem_spec model_method of
        Inl e \<Rightarrow> Inl e
      | Inr params' \<Rightarrow>
          (let opt_state' = opt_init (optimizer self) params'
           in Inr \<lparr>step = 0, params = params', opt_state = opt_state',
                   training_time_hours = 0\<rparr>))"

definition TrainStep_init ::
  "('a, 'st, 'r, 'e, 'ls) lib \<Rightarrow> ('a, 'st, 'kw, 'r, 'ls) TrainStep \<Rightarrow> 'e \<Rightarrow> string option
     \<Rightarrow> error + 'a TrainState" where
  "TrainStep_init L self elem_spec model_method =
     (case assert_root_cfg_resolved self of
        Inl e \<Rightarrow> Inl e
      | Inr _ \<Rightarrow> TrainStep__init L self (freeze elem_spec) model_method)"

text \<open>
  \<^verbatim>\<open>TrainStep.step\<close>, as \<^verbatim>\<open>jax_utils.jit\<close> runs it. The result is the pair of what the
  call returns or raises and of the argument \<open>state\<close> as the caller has it afterwards.
  \<^item> The arguments are turned into arrays: a step that is no int32 value raises
    \<^verbatim>\<open>OverflowError\<close>, and \<open>training_time_hours\<close> becomes a float32.
  \<^item> The body is traced. The forward pass is differentiated in its first argument, the
    parameters, with the batch, the RNGs of this step, the step and \<^verbatim>\<open>is_training=True\<close>
    fixed. In \<^verbatim>\<open>state.next\<close> the arrays are traced, so the \<^verbatim>\<open>or\<close> of an array raises,
    and \<^verbatim>\<open>self.step + 1\<close> is an int32 sum: the step of the state that \<^verbatim>\<open>next\<close> returns,
    wrapped.
  \<^item> \<^verbatim>\<open>donate_argnames=("state",)\<close>: a call that has run has given the buffers of
    \<open>state\<close> to the computation. Where the backend takes donated buffers the arrays of
    \<open>state\<close> are deleted and it cannot be read any more (\<open>None\<close>); a call that raises
    has not run and leaves it as it was.
\<close>

definition TrainStep_step ::
  "('a, 'st, 'r, 'e, 'ls) lib \<Rightarrow> ('a, 'st, 'kw, 'r, 'ls) TrainStep \<Rightarrow> 'a TrainState
     \<Rightarrow> 'a pytree \<Rightarrow> bool \<Rightarrow> bool \<Rightarrow> bool
     \<Rightarrow> (error + 'a TrainState \<times> ('st, 'kw) Auxiliaries) \<times> 'a TrainState option" where
  "TrainStep_step L self state batch' return_losses return_metrics return_summaries =
     (if \<not> int32_range (step state) then (Inl OverflowError, Some state)
      else
        (let state' = state\<lparr>training_time_hours := float32 L (training_time_hours state)\<rparr>;
             grad_fn = jax_grad_has_aux (grad L)
               (\<lambda>p. ModelWithAux_forward L (model_with_aux self) p batch'
                      (train_rngs (rng_streams self) (step state')) (step state') True);
             (grads', context) = grad_fn (params state');
             (updates', new_opt_state) =
                opt_update (optimizer self) grads' (opt_state state') (params state');
             new_params = apply_updates L (params state') updates'
         in case TrainState_next traced_bool state' new_params new_opt_state of
              Inl e \<Rightarrow> (Inl e, Some state)
            | Inr next_state \<Rightarrow>
                (let next_state = next_state\<lparr>step := int32 (step next_state)\<rparr>;
                     context = context\<lparr>grads := grads', updates := updates'\<rparr>;
                     aux = ModelWithAux_get_aux (model_with_aux self) context
                             return_losses return_metrics return_summaries
                 in (Inr (next_state, aux), if donation L then None else Some state))))"

subsection \<open>The merge of two dicts\<close>

text \<open>
  What \<open>reduce_states\<close> returns on two dicts with the same keys (lemma
  \<open>reduce_states_pair\<close> below): every value of the first merged with the value that
  the second holds under the same key.
\<close>

definition merged ::
  "('st \<Rightarrow> 'st \<Rightarrow> 'st) \<Rightarrow> (string, 'st) fmap \<Rightarrow> (string, 'st) fmap \<Rightarrow> (string, 'st) fmap" where
  "merged mrg d0 d1 = fmmap_keys (\<lambda>k v. mrg v (the (fmlookup d1 k))) d0"

subsection \<open>A small instance\<close>

text \<open>
  A model with one weight \<open>w\<close>, an optimizer whose update is the gradient, and a metric
  that reads the weight from the context. The array leaves are real numbers (arrays
  of no dimension); \<open>float32\<close> is exact on the hours used here, and the backend takes
  donated buffers. In \<open>ex_array_state\<close> the arrays are lists of their elements;
  \<open>ex_array_bool\<close> gives an array of one element the truth value of the element and
  raises \<^verbatim>\<open>ValueError\<close> on the others. The accumulator states of \<open>ex_aux_a\<close>, \<open>ex_aux_b\<close> and \<open>ex_aux_c\<close> are lists under
  concatenation, an associative merge that is not commutative.
\<close>

definition ex_weight :: "(real, real) Context \<Rightarrow> real" where
  "ex_weight c =
     (case Context.params c of
        PDict d \<Rightarrow> (case fmlookup d ''w'' of Some (Leaf x) \<Rightarrow> x | _ \<Rightarrow> 0)
      | _ \<Rightarrow> 0)"

definition ex_lib :: "(real, real, nat, nat, unit) lib" where
  "ex_lib =
     \<lparr>mock_batch_from_elem_spec = (\<lambda>n. PTuple (replicate n (Leaf 0))),
      get_model_inputs = (\<lambda>m c. ([batch c], fmempty)),
      compute_losses = (\<lambda>ls c. (0, fmupd ''l2'' 1 fmempty)),
      grad = (\<lambda>f p. PDict (fmupd ''w'' (Leaf 4) fmempty)),
      apply_updates = (\<lambda>p u. u),
      float32 = (\<lambda>x. x),
      donation = True\<rparr>"

definition ex_model :: "(real, nat) Module" where
  "ex_model =
     \<lparr>module_init = (\<lambda>rngs inputs method is_training.
         fmupd ''params'' (PDict (fmupd ''w'' (Leaf 1) fmempty)) fmempty),
      module_apply = (\<lambda>p inputs rngs capture is_training. (PTuple (fst inputs), PDict fmempty))\<rparr>"

definition ex_model_with_aux :: "bool \<Rightarrow> (real, real, int, nat, unit) ModelWithAux" where
  "ex_model_with_aux resolved =
     \<lparr>root_cfg_resolved = resolved, model = ex_model, losses = (),
      metrics = fmupd ''w'' ex_weight fmempty,
      summaries = fmupd ''at'' (\<lambda>c. Context.step c) fmempty\<rparr>"

definition ex_train_step :: "bool \<Rightarrow> (real, real, int, nat, unit) TrainStep" where
  "ex_train_step resolved =
     \<lparr>root_cfg_resolved = resolved, model_with_aux = ex_model_with_aux resolved,
      optimizer = \<lparr>opt_init = (\<lambda>p. PTuple []), opt_update = (\<lambda>g s p. (g, s))\<rparr>,
      rng_streams = \<lparr>init_rngs = 0, train_rngs = (\<lambda>s. nat s)\<rparr>\<rparr>"

definition ex_state :: "real TrainState" where
  "ex_state =
     \<lparr>step = 3, params = PDict (fmupd ''w'' (Leaf 1) fmempty), opt_state = PTuple [Leaf 2],
      training_time_hours = 1\<rparr>"



definition ex_aux_a :: "(nat list, int) Auxiliaries" where
  "ex_aux_a =
     \<lparr>loss_states = fmupd ''l2'' [1] fmempty, metric_states = fmupd ''w'' [10] fmempty,
      summary_kwargs = fmupd ''at'' 3 fmempty\<rparr>"

definition ex_aux_b :: "(nat list, int) Auxiliaries" where
  "ex_aux_b =
     \<lparr>loss_states = fmupd ''l2'' [2] fmempty, metric_states = fmupd ''w'' [20] fmempty,
      summary_kwargs = fmupd ''zz'' 9 (fmupd ''at'' 4 fmempty)\<rparr>"

definition ex_aux_c :: "(nat list, int) Auxiliaries" where
  "ex_aux_c =
     \<lparr>loss_states = fmupd ''l2'' [3] fmempty, metric_states = fmupd ''w'' [30] fmempty,
      summary_kwargs = fmempty\<rparr>"

section \<open>Properties\<close>

subsection \<open>Merging two dicts of accumulator states\<close>

lemma fmmap_keys_fmempty: "fmmap_keys f fmempty = fmempty"
  by (rule fmap_ext) simp

lemma fmmap_keys_fmupd: "fmmap_keys f (fmupd k v m) = fmupd k (f k v) (fmmap_keys f m)"
  by (rule fmap_ext) simp

lemma zip_dict_pair:
  "fmdom d1 = fmdom d0 \<Longrightarrow>
     zip_dict d0 [d1] = Inr (fmmap_keys (\<lambda>k v. (v, [the (fmlookup d1 k)])) d0)"
  by (simp add: zip_dict_def)

lemma zip_dict_pair_mismatch:
  "fmdom d1 \<noteq> fmdom d0 \<Longrightarrow> zip_dict d0 [d1] = Inl KeyError"
  by (simp add: zip_dict_def)

lemma reduce_states_pair:
  assumes "fmdom d0 = fmdom d1"
  shows "reduce_states mrg d0 [d1] = Inr (merged mrg d0 d1)"
proof -
  have "fmmap (reduce_states_single mrg) (fmmap_keys (\<lambda>k v. (v, [the (fmlookup d1 k)])) d0)
          = merged mrg d0 d1"
    unfolding merged_def by (rule fmap_ext) (simp add: option.map_comp comp_def)
  with assms show ?thesis
    by (simp add: reduce_states_def zip_dict_pair)
qed

lemma reduce_states_pair_mismatch:
  "fmdom d0 \<noteq> fmdom d1 \<Longrightarrow> reduce_states mrg d0 [d1] = Inl KeyError"
  using zip_dict_pair_mismatch[of d1 d0] by (simp add: reduce_states_def)

lemma fmdom_merged: "fmdom (merged mrg d0 d1) = fmdom d0"
  by (simp add: merged_def)

lemma merged_assoc:
  assumes assoc: "\<And>x y z. mrg (mrg x y) z = mrg x (mrg y z)"
    and ab: "fmdom a = fmdom b" and bc: "fmdom b = fmdom c"
  shows "merged mrg (merged mrg a b) c = merged mrg a (merged mrg b c)"
proof (rule fmap_ext)
  fix k
  show "fmlookup (merged mrg (merged mrg a b) c) k = fmlookup (merged mrg a (merged mrg b c)) k"
  proof (cases "fmlookup a k")
    case None
    then show ?thesis by (simp add: merged_def)
  next
    case (Some v)
    then have "k |\<in>| fmdom b" using ab by (metis fmdomI)
    then obtain w where "fmlookup b k = Some w" by (auto simp: fmlookup_dom_iff)
    with Some show ?thesis by (simp add: merged_def assoc)
  qed
qed

lemma Auxiliaries_merge_ok:
  assumes "fmdom (loss_states a) = fmdom (loss_states b)"
    and "fmdom (metric_states a) = fmdom (metric_states b)"
  shows "Auxiliaries_merge mrg a b =
           Inr (a\<lparr>loss_states := merged mrg (loss_states a) (loss_states b),
                  metric_states := merged mrg (metric_states a) (metric_states b)\<rparr>)"
  using assms by (simp add: Auxiliaries_merge_def reduce_states_pair)

lemmas ex_defs =
  ex_lib_def ex_model_def ex_model_with_aux_def ex_train_step_def ex_state_def ex_weight_def

lemma int32_succ:
  "int32_range n \<Longrightarrow> int32 (n + 1) = (if n = 2 ^ 31 - 1 then - (2 ^ 31) else n + 1)"
  by (simp add: int32_range_def int32_def)

lemma truthy_not_leaf: "\<not> is_leaf t \<Longrightarrow> \<exists>b. truthy lb t = Inr b"
  by (cases t) auto

lemmas ex_aux_defs = ex_aux_a_def ex_aux_b_def ex_aux_c_def

subsection \<open>The step\<close>

lemma TrainState_next_traced:
  assumes "\<not> is_leaf np" and "\<not> is_leaf nos"
  shows "\<exists>bp bo. TrainState_next traced_bool s np nos
           = Inr (s\<lparr>step := step s + 1, params := if bp then np else params s,
                     opt_state := if bo then nos else opt_state s\<rparr>)"
proof -
  obtain bp where "truthy traced_bool np = Inr bp"
    using assms(1) truthy_not_leaf by blast
  moreover obtain bo where "truthy traced_bool nos = Inr bo"
    using assms(2) truthy_not_leaf by blast
  ultimately show ?thesis
    by (intro exI [of _ bp] exI [of _ bo]) (simp add: TrainState_next_def py_or_def)
qed

lemma TrainStep_step_aux:
  assumes "fst (TrainStep_step L self state b rl rm rs) = Inr (ns, aux)"
  shows "aux = ModelWithAux_get_aux (model_with_aux self)
           ((snd (ModelWithAux_forward L (model_with_aux self) (params state) b
                    (train_rngs (rng_streams self) (step state)) (step state) True))
              \<lparr>grads := grad L (\<lambda>p. fst (ModelWithAux_forward L (model_with_aux self) p b
                                      (train_rngs (rng_streams self) (step state)) (step state) True))
                          (params state),
               updates := fst (opt_update (optimizer self)
                          (grad L (\<lambda>p. fst (ModelWithAux_forward L (model_with_aux self) p b
                                      (train_rngs (rng_streams self) (step state)) (step state) True))
                             (params state))
                          (opt_state state) (params state))\<rparr>) rl rm rs"
  using assms
  by (auto simp: TrainStep_step_def jax_grad_has_aux_def Let_def
        split: if_splits prod.splits sum.splits)

lemma TrainStep_step_returns:
  assumes "int32_range (step state)"
    and "jax_grad_has_aux (grad L)
           (\<lambda>p. ModelWithAux_forward L (model_with_aux self) p b
                  (train_rngs (rng_streams self) (step state)) (step state) True)
           (params state) = (g, ctx)"
    and "opt_update (optimizer self) g (opt_state state) (params state) = (u, nos)"
    and "\<not> is_leaf (apply_updates L (params state) u)" and "\<not> is_leaf nos"
  shows "\<exists>bp bo.
           TrainStep_step L self state b rl rm rs =
             (Inr (\<lparr>step = int32 (step state + 1),
                    params = if bp then apply_updates L (params state) u else params state,
                    opt_state = if bo then nos else opt_state state,
                    training_time_hours = float32 L (training_time_hours state)\<rparr>,
                   ModelWithAux_get_aux (model_with_aux self) (ctx\<lparr>grads := g, updates := u\<rparr>)
                     rl rm rs),
              if donation L then None else Some state)"
proof -
  let ?s = "state\<lparr>training_time_hours := float32 L (training_time_hours state)\<rparr>"
  obtain bp bo where
    "TrainState_next traced_bool ?s (apply_updates L (params state) u) nos
       = Inr (?s\<lparr>step := step ?s + 1,
                 params := if bp then apply_updates L (params state) u else params ?s,
                 opt_state := if bo then nos else opt_state ?s\<rparr>)"
    using TrainState_next_traced [OF assms(4,5), of ?s] by blast
  then show ?thesis
    using assms(1,2,3)
    by (intro exI [of _ bp] exI [of _ bo]) (simp add: TrainStep_step_def Let_def)
qed

text \<open>
  Claim C1, as amended. For every TrainState \<open>s\<close> whose step is an int32 value and every
  batch \<open>b\<close> for which neither the new parameters nor the new optimizer state is a bare
  array, \<^verbatim>\<open>TrainStep.step(s, b)\<close> returns a next state whose \<open>step\<close> field is \<open>s.step + 1\<close>
  if \<open>s.step\<close> is below \<open>2^31 - 1\<close>, and \<open>- 2^31\<close> if it is \<open>2^31 - 1\<close>: the counter is an
  int32 and wraps. The next state is a new value, other than \<open>s\<close>. The buffers of \<open>s\<close>
  are donated to the call: afterwards \<open>s\<close> is as it was where the backend does not take
  donated buffers, and cannot be read any more where it does.
\<close>

theorem step_increments_int32_step_and_donates_input:
  assumes "int32_range (step state)"
    and "jax_grad_has_aux (grad L)
           (\<lambda>p. ModelWithAux_forward L (model_with_aux self) p b
                  (train_rngs (rng_streams self) (step state)) (step state) True)
           (params state) = (g, ctx)"
    and "opt_update (optimizer self) g (opt_state state) (params state) = (u, nos)"
    and "\<not> is_leaf (apply_updates L (params state) u)" and "\<not> is_leaf nos"
  shows "\<exists>ns aux.
           TrainStep_step L self state b rl rm rs
             = (Inr (ns, aux), if donation L then None else Some state)
         \<and> step ns = (if step state = 2 ^ 31 - 1 then - (2 ^ 31) else step state + 1)
         \<and> ns \<noteq> state"
proof -
  obtain ns aux where r: "TrainStep_step L self state b rl rm rs
             = (Inr (ns, aux), if donation L then None else Some state)"
    and s: "step ns = int32 (step state + 1)"
    using TrainStep_step_returns [OF assms, of rl rm rs] by auto
  have w: "int32 (step state + 1)
             = (if step state = 2 ^ 31 - 1 then - (2 ^ 31) else step state + 1)"
    using assms(1) by (rule int32_succ)
  have "step ns \<noteq> step state"
    using s w by (simp split: if_splits)
  then have "ns \<noteq> state"
    by auto
  with r s w show ?thesis
    by auto
qed

text \<open>
  The instance: one step from \<open>ex_state\<close>, at step 3, on a backend that takes the
  donated buffers.
\<close>

theorem step_increments_int32_step_and_donates_input_witness:
  "int32_range (step ex_state)
   \<and> (\<exists>ns aux.
         TrainStep_step ex_lib (ex_train_step True) ex_state (PTuple [Leaf 7]) True True True
           = (Inr (ns, aux), None)
       \<and> step ns = 4 \<and> ns \<noteq> ex_state)"
proof -
  let ?X = "jax_grad_has_aux (grad ex_lib)
           (\<lambda>p. ModelWithAux_forward ex_lib (model_with_aux (ex_train_step True)) p
                  (PTuple [Leaf 7])
                  (train_rngs (rng_streams (ex_train_step True)) (step ex_state))
                  (step ex_state) True)
           (params ex_state)"
  let ?Y = "opt_update (optimizer (ex_train_step True)) (fst ?X) (opt_state ex_state)
              (params ex_state)"
  have h1: "int32_range (step ex_state)"
    by (simp add: ex_defs int32_range_def)
  have h4: "\<not> is_leaf (apply_updates ex_lib (params ex_state) (fst ?Y))"
    by (simp add: ex_defs jax_grad_has_aux_def)
  have h5: "\<not> is_leaf (snd ?Y)"
    by (simp add: ex_defs)
  have d: "donation ex_lib" and n: "step ex_state = 3"
    by (simp_all add: ex_defs)
  show ?thesis
    using h1 d n
      step_increments_int32_step_and_donates_input
        [OF h1 surjective_pairing surjective_pairing h4 h5, of True True True]
    by simp
qed

text \<open>
  The claim as it was stated fails at the last int32: from step \<open>2^31 - 1\<close> the call
  returns a state at step \<open>- 2^31\<close>, and the state it was given is deleted.
\<close>

theorem step_at_int32_max_counterexample:
  "fst (TrainStep_step ex_lib (ex_train_step True) (ex_state\<lparr>step := 2147483647\<rparr>)
          (PTuple [Leaf 7]) False False False)
     = Inr (\<lparr>step = - 2147483648, params = PDict (fmupd ''w'' (Leaf 4) fmempty),
             opt_state = PTuple [Leaf 2], training_time_hours = 1\<rparr>,
            \<lparr>loss_states = fmempty, metric_states = fmempty, summary_kwargs = fmempty\<rparr>)
   \<and> snd (TrainStep_step ex_lib (ex_train_step True) (ex_state\<lparr>step := 2147483647\<rparr>)
          (PTuple [Leaf 7]) False False False) = None
   \<and> (- 2147483648 :: int) \<noteq> 2147483647 + 1"
  by (simp add: ex_defs TrainStep_step_def jax_grad_has_aux_def ModelWithAux_forward_def
        ModelWithAux_get_aux_def Auxiliaries_new_def TrainState_next_def py_or_def
        Context_new_def Let_def int32_range_def int32_def)

text \<open>
  Claim C2. In \<^verbatim>\<open>TrainStep.step\<close> the returned Auxiliaries are extracted from the
  pre-update forward Context, never from the post-update state: whenever the call
  returns, they are \<open>get_aux\<close> of the context \<open>ctx\<close> that the forward pass at the
  parameters of the input state returns, the same forward pass \<open>fwd\<close> whose scalar is
  differentiated for the gradients \<open>g\<close>, extended with \<open>g\<close> and the updates \<open>u\<close>; and the
  call does return them when the step is an int32 and neither the new parameters nor
  the new optimizer state is a bare array. The parameters and the step in \<open>ctx\<close> are
  those of the input state, and the auxiliaries are the same whatever
  \<^verbatim>\<open>optax.apply_updates\<close> makes of the new parameters.
\<close>

theorem step_aux_from_pre_update_context:
  "let mwa = model_with_aux self;
       fwd = (\<lambda>p. ModelWithAux_forward L mwa p b
                    (train_rngs (rng_streams self) (step state)) (step state) True);
       ctx = snd (fwd (params state));
       g = grad L (\<lambda>p. fst (fwd p)) (params state);
       u = fst (opt_update (optimizer self) g (opt_state state) (params state));
       nos = snd (opt_update (optimizer self) g (opt_state state) (params state));
       np = apply_updates L (params state) u
   in (\<forall>ns aux. fst (TrainStep_step L self state b rl rm rs) = Inr (ns, aux)
         \<longrightarrow> aux = ModelWithAux_get_aux mwa (ctx\<lparr>grads := g, updates := u\<rparr>) rl rm rs)
      \<and> (int32_range (step state) \<and> \<not> is_leaf np \<and> \<not> is_leaf nos
         \<longrightarrow> (\<exists>ns. fst (TrainStep_step L self state b rl rm rs)
                  = Inr (ns, ModelWithAux_get_aux mwa (ctx\<lparr>grads := g, updates := u\<rparr>) rl rm rs)))
      \<and> Context.params ctx = params state
      \<and> Context.step ctx = step state
      \<and> (\<forall>au ns aux ns' aux'.
            fst (TrainStep_step (L\<lparr>apply_updates := au\<rparr>) self state b rl rm rs) = Inr (ns', aux')
          \<and> fst (TrainStep_step L self state b rl rm rs) = Inr (ns, aux)
         \<longrightarrow> aux' = aux)"
proof -
  let ?fwd = "\<lambda>p. ModelWithAux_forward L (model_with_aux self) p b
                    (train_rngs (rng_streams self) (step state)) (step state) True"
  let ?g = "grad L (\<lambda>p. fst (?fwd p)) (params state)"
  let ?ou = "opt_update (optimizer self) ?g (opt_state state) (params state)"
  let ?A = "ModelWithAux_get_aux (model_with_aux self)
              ((snd (?fwd (params state)))\<lparr>grads := ?g, updates := fst ?ou\<rparr>) rl rm rs"
  have a: "aux = ?A" if "fst (TrainStep_step L self state b rl rm rs) = Inr (ns, aux)"
    for ns aux
    using TrainStep_step_aux [OF that] .
  have b: "\<exists>ns. fst (TrainStep_step L self state b rl rm rs) = Inr (ns, ?A)"
    if r: "int32_range (step state)"
      and l1: "\<not> is_leaf (apply_updates L (params state) (fst ?ou))"
      and l2: "\<not> is_leaf (snd ?ou)"
  proof -
    have x: "jax_grad_has_aux (grad L) ?fwd (params state) = (?g, snd (?fwd (params state)))"
      by (simp add: jax_grad_has_aux_def)
    have y: "?ou = (fst ?ou, snd ?ou)"
      by simp
    obtain bp bo where "fst (TrainStep_step L self state b rl rm rs)
        = Inr (\<lparr>step = int32 (step state + 1),
                params = if bp then apply_updates L (params state) (fst ?ou) else params state,
                opt_state = if bo then snd ?ou else opt_state state,
                training_time_hours = float32 L (training_time_hours state)\<rparr>, ?A)"
      using TrainStep_step_returns [OF r x y l1 l2, of rl rm rs] by auto
    then show ?thesis
      by blast
  qed
  have c: "Context.params (snd (?fwd (params state))) = params state"
    and d: "Context.step (snd (?fwd (params state))) = step state"
    by (simp_all add: ModelWithAux_forward_def Context_new_def Let_def split: prod.splits)
  have e: "aux' = aux"
    if "fst (TrainStep_step (L\<lparr>apply_updates := au\<rparr>) self state b rl rm rs) = Inr (ns', aux')"
      and "fst (TrainStep_step L self state b rl rm rs) = Inr (ns, aux)"
    for au ns aux ns' aux'
    using TrainStep_step_aux [OF that(1)] TrainStep_step_aux [OF that(2)]
    by (simp add: ModelWithAux_forward_def Let_def)
  show ?thesis
    unfolding Let_def using a b c d e by blast
qed

text \<open>
  The instance: the step moves the weight from 1 to 4; the metric \<open>w\<close> in the
  auxiliaries holds 1.
\<close>

theorem step_aux_from_pre_update_context_witness:
  "fst (TrainStep_step ex_lib (ex_train_step True) ex_state (PTuple [Leaf 7]) True True True)
     = Inr (\<lparr>step = 4, params = PDict (fmupd ''w'' (Leaf 4) fmempty),
             opt_state = PTuple [Leaf 2], training_time_hours = 1\<rparr>,
            \<lparr>loss_states = fmupd ''l2'' 1 fmempty, metric_states = fmupd ''w'' 1 fmempty,
             summary_kwargs = fmupd ''at'' 3 fmempty\<rparr>)"
  using step_aux_from_pre_update_context
          [of "ex_train_step True" ex_lib "PTuple [Leaf 7]" ex_state True True True]
  by (simp add: ex_defs TrainStep_step_def jax_grad_has_aux_def ModelWithAux_forward_def
        ModelWithAux_get_aux_def Auxiliaries_new_def TrainState_next_def py_or_def
        Context_new_def Let_def fmmap_fmupd int32_range_def int32_def)

subsection \<open>Merging auxiliaries\<close>

text \<open>
  Claim C3, as amended. For every pair of Auxiliaries \<open>a\<close> and \<open>b\<close> with identical key
  sets, \<open>a.merge(b)\<close> succeeds and the summaries of \<open>b\<close> are dropped, not merged: the
  \<open>summary_kwargs\<close> mapping of the result is that of \<open>a\<close>, whatever \<open>b\<close> holds, and so
  it is empty exactly when that of \<open>a\<close> is empty.
\<close>

theorem merge_drops_right_summary_kwargs:
  assumes "fmdom (loss_states a) = fmdom (loss_states b)"
    and "fmdom (metric_states a) = fmdom (metric_states b)"
  shows "\<exists>r. Auxiliaries_merge mrg a b = Inr r
           \<and> summary_kwargs r = summary_kwargs a
           \<and> (summary_kwargs r = fmempty \<longleftrightarrow> summary_kwargs a = fmempty)"
  using assms by (simp add: Auxiliaries_merge_ok)

text \<open>
  The instance: \<open>ex_aux_a\<close> has the summary \<open>at\<close> and \<open>ex_aux_b\<close> the summaries \<open>at\<close> and
  \<open>zz\<close>; their merge has the \<open>at\<close> of \<open>ex_aux_a\<close> and no \<open>zz\<close>.
\<close>

theorem merge_drops_right_summary_kwargs_witness:
  "fmdom (loss_states ex_aux_a) = fmdom (loss_states ex_aux_b)
   \<and> fmdom (metric_states ex_aux_a) = fmdom (metric_states ex_aux_b)
   \<and> fmlookup (summary_kwargs ex_aux_b) ''zz'' = Some 9
   \<and> (\<exists>r. Auxiliaries_merge (@) ex_aux_a ex_aux_b = Inr r
          \<and> summary_kwargs r = fmupd ''at'' 3 fmempty
          \<and> fmlookup (summary_kwargs r) ''at'' = Some 3
          \<and> fmlookup (summary_kwargs r) ''zz'' = None)"
proof -
  have h1: "fmdom (loss_states ex_aux_a) = fmdom (loss_states ex_aux_b)"
    by (simp add: ex_aux_defs)
  have h2: "fmdom (metric_states ex_aux_a) = fmdom (metric_states ex_aux_b)"
    by (simp add: ex_aux_defs)
  have b: "fmlookup (summary_kwargs ex_aux_b) ''zz'' = Some 9"
    by (simp add: ex_aux_defs)
  have a: "summary_kwargs ex_aux_a = fmupd ''at'' 3 fmempty"
    by (simp add: ex_aux_defs)
  obtain r where "Auxiliaries_merge (@) ex_aux_a ex_aux_b = Inr r"
    and "summary_kwargs r = summary_kwargs ex_aux_a"
    using merge_drops_right_summary_kwargs [OF h1 h2, of "(@)"] by blast
  then have "Auxiliaries_merge (@) ex_aux_a ex_aux_b = Inr r
          \<and> summary_kwargs r = fmupd ''at'' 3 fmempty
          \<and> fmlookup (summary_kwargs r) ''at'' = Some 3
          \<and> fmlookup (summary_kwargs r) ''zz'' = None"
    using a by simp
  then show ?thesis
    using h1 h2 b by blast
qed

text \<open>
  The claim as it was stated, that the result of the merge has an empty
  \<open>summary_kwargs\<close>, fails where the left operand has summaries: the merge of \<open>ex_aux_a\<close>
  with \<open>ex_aux_b\<close> has those of \<open>ex_aux_a\<close>.
\<close>

theorem merge_summary_kwargs_empty_counterexample:
  "fmdom (loss_states ex_aux_a) = fmdom (loss_states ex_aux_b)
   \<and> fmdom (metric_states ex_aux_a) = fmdom (metric_states ex_aux_b)
   \<and> Auxiliaries_merge (@) ex_aux_a ex_aux_b
       = Inr \<lparr>loss_states = fmupd ''l2'' [1, 2] fmempty,
              metric_states = fmupd ''w'' [10, 20] fmempty,
              summary_kwargs = fmupd ''at'' 3 fmempty\<rparr>
   \<and> fmupd ''at'' (3::int) fmempty \<noteq> fmempty"
proof -
  have "fmlookup (fmupd ''at'' (3::int) fmempty) ''at'' \<noteq> fmlookup fmempty ''at''"
    by simp
  then have "fmupd ''at'' (3::int) fmempty \<noteq> fmempty"
    by metis
  then show ?thesis
    by (simp add: ex_aux_defs Auxiliaries_merge_ok merged_def fmmap_keys_fmupd
          fmmap_keys_fmempty)
qed

text \<open>
  Claim C4. For every pair of Auxiliaries \<open>a\<close> and \<open>b\<close> whose \<open>loss_states\<close> (or
  \<open>metric_states\<close>) mappings have non-equal key sets, \<open>a.merge(b)\<close> fails: it raises
  \<^verbatim>\<open>KeyError\<close> rather than dropping or ignoring keys.
\<close>

theorem merge_key_mismatch_fails:
  assumes "fmdom (loss_states a) \<noteq> fmdom (loss_states b)
             \<or> fmdom (metric_states a) \<noteq> fmdom (metric_states b)"
  shows "Auxiliaries_merge mrg a b = Inl KeyError"
proof (cases "fmdom (loss_states a) = fmdom (loss_states b)")
  case False
  then show ?thesis
    by (simp add: Auxiliaries_merge_def reduce_states_pair_mismatch)
next
  case True
  with assms have "fmdom (metric_states a) \<noteq> fmdom (metric_states b)"
    by simp
  with True show ?thesis
    by (simp add: Auxiliaries_merge_def reduce_states_pair reduce_states_pair_mismatch)
qed

text \<open>The instance: the metrics of the right operand are keyed \<open>acc\<close>, not \<open>w\<close>.\<close>

theorem merge_key_mismatch_fails_witness:
  "fmdom (metric_states ex_aux_a)
     \<noteq> fmdom (metric_states (ex_aux_b\<lparr>metric_states := fmupd ''acc'' [20] fmempty\<rparr>))
   \<and> Auxiliaries_merge (@) ex_aux_a (ex_aux_b\<lparr>metric_states := fmupd ''acc'' [20] fmempty\<rparr>)
       = Inl KeyError"
proof -
  have ne: "fmdom (metric_states ex_aux_a)
     \<noteq> fmdom (metric_states (ex_aux_b\<lparr>metric_states := fmupd ''acc'' [20] fmempty\<rparr>))"
    by (simp add: ex_aux_defs)
  then show ?thesis
    using merge_key_mismatch_fails
            [of ex_aux_a "ex_aux_b\<lparr>metric_states := fmupd ''acc'' [20] fmempty\<rparr>" "(@)"]
    by blast
qed

text \<open>
  Claim C5. \<^verbatim>\<open>Auxiliaries.merge\<close> is associative on the \<open>loss_states\<close> and \<open>metric_states\<close>
  components: for all Auxiliaries \<open>a\<close>, \<open>b\<close>, \<open>c\<close> with identical key sets, if the merge
  of the accumulator states is associative, then the four merges succeed and
  \<open>(a.merge(b)).merge(c)\<close> equals \<open>a.merge(b.merge(c))\<close> on those two mappings.
\<close>

theorem merge_assoc_on_states:
  assumes "\<forall>x y z. mrg (mrg x y) z = mrg x (mrg y z)"
    and "fmdom (loss_states a) = fmdom (loss_states b)"
    and "fmdom (loss_states b) = fmdom (loss_states c)"
    and "fmdom (metric_states a) = fmdom (metric_states b)"
    and "fmdom (metric_states b) = fmdom (metric_states c)"
  shows "\<exists>ab bc l r.
           Auxiliaries_merge mrg a b = Inr ab \<and> Auxiliaries_merge mrg ab c = Inr l
         \<and> Auxiliaries_merge mrg b c = Inr bc \<and> Auxiliaries_merge mrg a bc = Inr r
         \<and> loss_states l = loss_states r \<and> metric_states l = metric_states r"
proof -
  let ?ab = "a\<lparr>loss_states := merged mrg (loss_states a) (loss_states b),
                metric_states := merged mrg (metric_states a) (metric_states b)\<rparr>"
  let ?bc = "b\<lparr>loss_states := merged mrg (loss_states b) (loss_states c),
                metric_states := merged mrg (metric_states b) (metric_states c)\<rparr>"
  have assoc: "\<And>x y z. mrg (mrg x y) z = mrg x (mrg y z)"
    using assms(1) by blast
  have ab: "Auxiliaries_merge mrg a b = Inr ?ab"
    using assms(2,4) by (rule Auxiliaries_merge_ok)
  have bc: "Auxiliaries_merge mrg b c = Inr ?bc"
    using assms(3,5) by (rule Auxiliaries_merge_ok)
  have l: "Auxiliaries_merge mrg ?ab c =
             Inr (?ab\<lparr>loss_states := merged mrg (loss_states ?ab) (loss_states c),
                      metric_states := merged mrg (metric_states ?ab) (metric_states c)\<rparr>)"
    by (rule Auxiliaries_merge_ok) (simp_all add: fmdom_merged assms)
  have r: "Auxiliaries_merge mrg a ?bc =
             Inr (a\<lparr>loss_states := merged mrg (loss_states a) (loss_states ?bc),
                    metric_states := merged mrg (metric_states a) (metric_states ?bc)\<rparr>)"
    by (rule Auxiliaries_merge_ok) (simp_all add: fmdom_merged assms)
  have ls: "merged mrg (merged mrg (loss_states a) (loss_states b)) (loss_states c)
              = merged mrg (loss_states a) (merged mrg (loss_states b) (loss_states c))"
    using assoc assms(2,3) by (rule merged_assoc)
  have ms: "merged mrg (merged mrg (metric_states a) (metric_states b)) (metric_states c)
              = merged mrg (metric_states a) (merged mrg (metric_states b) (metric_states c))"
    using assoc assms(4,5) by (rule merged_assoc)
  show ?thesis
    using ab bc l r ls ms by simp
qed

text \<open>The instance: three Auxiliaries keyed \<open>l2\<close> and \<open>w\<close>, merged by concatenation.\<close>

theorem merge_assoc_on_states_witness:
  "(\<forall>x y z. ((x @ y) @ z :: nat list) = x @ (y @ z))
   \<and> fmdom (loss_states ex_aux_a) = fmdom (loss_states ex_aux_b)
   \<and> fmdom (loss_states ex_aux_b) = fmdom (loss_states ex_aux_c)
   \<and> fmdom (metric_states ex_aux_a) = fmdom (metric_states ex_aux_b)
   \<and> fmdom (metric_states ex_aux_b) = fmdom (metric_states ex_aux_c)
   \<and> (\<exists>ab bc l r.
         Auxiliaries_merge (@) ex_aux_a ex_aux_b = Inr ab \<and> Auxiliaries_merge (@) ab ex_aux_c = Inr l
       \<and> Auxiliaries_merge (@) ex_aux_b ex_aux_c = Inr bc \<and> Auxiliaries_merge (@) ex_aux_a bc = Inr r
       \<and> loss_states l = loss_states r \<and> metric_states l = metric_states r)"
proof -
  have h1: "\<forall>x y z. ((x @ y) @ z :: nat list) = x @ (y @ z)" by simp
  have h2: "fmdom (loss_states ex_aux_a) = fmdom (loss_states ex_aux_b)"
    by (simp add: ex_aux_defs)
  have h3: "fmdom (loss_states ex_aux_b) = fmdom (loss_states ex_aux_c)"
    by (simp add: ex_aux_defs)
  have h4: "fmdom (metric_states ex_aux_a) = fmdom (metric_states ex_aux_b)"
    by (simp add: ex_aux_defs)
  have h5: "fmdom (metric_states ex_aux_b) = fmdom (metric_states ex_aux_c)"
    by (simp add: ex_aux_defs)
  show ?thesis
    using h1 h2 h3 h4 h5 merge_assoc_on_states [OF h1 h2 h3 h4 h5] by blast
qed

text \<open>
  Claim C10. For every pair of Auxiliaries \<open>a\<close> and \<open>b\<close> with identical key sets, the
  \<open>summary_kwargs\<close> of \<open>a.merge(b)\<close> equals \<open>a.summary_kwargs\<close>: the bundle of the left
  operand is kept and that of \<open>b\<close> discarded. So the merge does not commute on
  \<open>summary_kwargs\<close> whenever the bundles of the two operands differ.
\<close>

theorem merge_keeps_left_summary_kwargs:
  assumes "fmdom (loss_states a) = fmdom (loss_states b)"
    and "fmdom (metric_states a) = fmdom (metric_states b)"
  shows "\<exists>r r'. Auxiliaries_merge mrg a b = Inr r \<and> Auxiliaries_merge mrg b a = Inr r'
           \<and> summary_kwargs r = summary_kwargs a
           \<and> summary_kwargs r' = summary_kwargs b
           \<and> (summary_kwargs a \<noteq> summary_kwargs b \<longrightarrow> summary_kwargs r \<noteq> summary_kwargs r')"
  using assms by (simp add: Auxiliaries_merge_ok)

text \<open>The instance: \<open>ex_aux_a\<close> has a summary and \<open>ex_aux_c\<close> none.\<close>

theorem merge_keeps_left_summary_kwargs_witness:
  "fmdom (loss_states ex_aux_a) = fmdom (loss_states ex_aux_c)
   \<and> fmdom (metric_states ex_aux_a) = fmdom (metric_states ex_aux_c)
   \<and> summary_kwargs ex_aux_a \<noteq> summary_kwargs ex_aux_c
   \<and> (\<exists>r r'. Auxiliaries_merge (@) ex_aux_a ex_aux_c = Inr r
          \<and> Auxiliaries_merge (@) ex_aux_c ex_aux_a = Inr r'
          \<and> summary_kwargs r = summary_kwargs ex_aux_a
          \<and> summary_kwargs r' = summary_kwargs ex_aux_c
          \<and> summary_kwargs r \<noteq> summary_kwargs r')"
proof -
  have h1: "fmdom (loss_states ex_aux_a) = fmdom (loss_states ex_aux_c)"
    by (simp add: ex_aux_defs)
  have h2: "fmdom (metric_states ex_aux_a) = fmdom (metric_states ex_aux_c)"
    by (simp add: ex_aux_defs)
  have "fmlookup (summary_kwargs ex_aux_a) ''at'' \<noteq> fmlookup (summary_kwargs ex_aux_c) ''at''"
    by (simp add: ex_aux_defs)
  then have h3: "summary_kwargs ex_aux_a \<noteq> summary_kwargs ex_aux_c"
    by metis
  show ?thesis
    using h1 h2 h3 merge_keeps_left_summary_kwargs [OF h1 h2, of "(@)"] by blast
qed

subsection \<open>Advancing a TrainState\<close>




text \<open>
  Claim C9. For every TrainState \<open>s\<close> and any arguments, \<open>s.next(new_params,
  new_opt_state)\<close> leaves the \<open>training_time_hours\<close> field as it is: the transition only
  touches \<open>step\<close>, \<open>params\<close> and \<open>opt_state\<close>. Every state that \<open>next\<close> returns has the
  hours of \<open>s\<close>, and \<open>next\<close> returns one whenever its arguments have a truth value.
\<close>

theorem next_keeps_training_time_hours:
  "(\<forall>s'. TrainState_next lb s np nos = Inr s'
      \<longrightarrow> training_time_hours s' = training_time_hours s)
   \<and> (\<forall>bp bo. truthy lb np = Inr bp \<and> truthy lb nos = Inr bo \<longrightarrow>
        (\<exists>s'. TrainState_next lb s np nos = Inr s'
            \<and> training_time_hours s' = training_time_hours s))"
  by (auto simp: TrainState_next_def py_or_def split: sum.splits)

text \<open>The instance: \<open>ex_state\<close> has trained for one hour, and so has its successor.\<close>

theorem next_keeps_training_time_hours_witness:
  "\<exists>s'. TrainState_next (\<lambda>x. Inr (x \<noteq> 0)) ex_state
            (PDict (fmupd ''w'' (Leaf 4) fmempty)) PNone = Inr s'
       \<and> training_time_hours s' = 1"
  using next_keeps_training_time_hours
          [of "\<lambda>x. Inr (x \<noteq> 0)" ex_state "PDict (fmupd ''w'' (Leaf 4) fmempty)" PNone]
  by (auto simp: ex_state_def)

subsection \<open>Extracting the auxiliaries\<close>

text \<open>
  Claim C7. For every Context \<open>c\<close> and flags \<open>return_losses\<close>, \<open>return_metrics\<close>,
  \<open>return_summaries\<close>, \<open>get_aux\<close> is a projection in which each flag decides on its
  own component: \<open>loss_states\<close> is the loss states stored in \<open>c\<close> when \<open>return_losses\<close> is
  true and empty otherwise; \<open>metric_states\<close> (each registered metric's state from \<open>c\<close>)
  and \<open>summary_kwargs\<close> (each registered summary's bundle from \<open>c\<close>) are likewise there
  exactly when their flag is true; with the three flags false the three mappings of the
  result are empty.
\<close>

theorem get_aux_flag_per_component:
  "loss_states (ModelWithAux_get_aux self c rl rm rs)
     = (if rl then Context.loss_states c else fmempty)
   \<and> metric_states (ModelWithAux_get_aux self c rl rm rs)
     = (if rm then fmmap (\<lambda>m. m c) (metrics self) else fmempty)
   \<and> summary_kwargs (ModelWithAux_get_aux self c rl rm rs)
     = (if rs then fmmap (\<lambda>summary. summary c) (summaries self) else fmempty)
   \<and> ModelWithAux_get_aux self c False False False
     = \<lparr>loss_states = fmempty, metric_states = fmempty, summary_kwargs = fmempty\<rparr>"
  by (simp add: ModelWithAux_get_aux_def Auxiliaries_new_def)

text \<open>
  The instance: of a context at step 8 with one loss state, the metrics alone are asked
  for.
\<close>

theorem get_aux_flag_per_component_witness:
  "ModelWithAux_get_aux (ex_model_with_aux True)
     ((Context_new 8 PNone (PDict (fmupd ''w'' (Leaf 2) fmempty)))
        \<lparr>Context.loss_states := fmupd ''l2'' 1 fmempty\<rparr>)
     False True False
     = \<lparr>loss_states = fmempty, metric_states = fmupd ''w'' 2 fmempty,
        summary_kwargs = fmempty\<rparr>"
proof -
  let ?c = "(Context_new 8 PNone (PDict (fmupd ''w'' (Leaf 2) fmempty)))
              \<lparr>Context.loss_states := fmupd ''l2'' (1::real) fmempty\<rparr>"
  let ?r = "ModelWithAux_get_aux (ex_model_with_aux True) ?c False True False"
  have "loss_states ?r = fmempty" and "summary_kwargs ?r = fmempty"
    and "metric_states ?r = fmupd ''w'' 2 fmempty"
    using get_aux_flag_per_component [of "ex_model_with_aux True" ?c False True False]
    by (simp_all add: ex_defs Context_new_def fmmap_fmupd)
  then show ?thesis
    by (cases ?r) simp
qed

subsection \<open>The initial state\<close>

text \<open>
  Claim C8, as amended. For every \<open>elem_spec\<close>, and for a TrainStep whose references to
  the root configuration, and those of its ModelWithAux, are resolved and whose model
  has parameters (its \<open>init\<close> returns a \<^verbatim>\<open>"params"\<close> collection),
  \<^verbatim>\<open>TrainStep.init(elem_spec)\<close> returns a TrainState with \<open>step = 0\<close> and
  \<open>training_time_hours = 0.0\<close>, whose \<open>params\<close> are what the parameter initialization of
  the ModelWithAux returns under the init RNG stream, the \<^verbatim>\<open>"params"\<close> collection, and
  whose \<open>opt_state\<close> is the optimizer's \<open>init\<close> of these parameters.
\<close>

theorem init_returns_state_at_step_zero:
  assumes "root_cfg_resolved self" and "root_cfg_resolved (model_with_aux self)"
    and "fmlookup
           (module_init (model (model_with_aux self)) (init_rngs (rng_streams self))
              (get_model_inputs L (model (model_with_aux self))
                 (Context_new 0 (mock_batch_from_elem_spec L e) PNone))
              mm True)
           ''params'' = Some p"
  shows "ModelWithAux_init L (model_with_aux self) (init_rngs (rng_streams self)) e mm = Inr p
         \<and> TrainStep_init L self e mm
             = Inr \<lparr>step = 0, params = p, opt_state = opt_init (optimizer self) p,
                    training_time_hours = 0\<rparr>"
  using assms
  by (simp add: TrainStep_init_def TrainStep__init_def ModelWithAux_init_def
        assert_root_cfg_resolved_def freeze_def unfreeze_def Let_def)

text \<open>The instance: the resolved \<open>ex_train_step\<close>, initialised for two elements.\<close>

theorem init_returns_state_at_step_zero_witness:
  "root_cfg_resolved (ex_train_step True)
   \<and> root_cfg_resolved (model_with_aux (ex_train_step True))
   \<and> TrainStep_init ex_lib (ex_train_step True) 2 None
       = Inr \<lparr>step = 0, params = PDict (fmupd ''w'' (Leaf 1) fmempty), opt_state = PTuple [],
              training_time_hours = 0\<rparr>"
proof -
  have h1: "root_cfg_resolved (ex_train_step True)"
    by (simp add: ex_defs)
  have h2: "root_cfg_resolved (model_with_aux (ex_train_step True))"
    by (simp add: ex_defs)
  have h3: "fmlookup
           (module_init (model (model_with_aux (ex_train_step True)))
              (init_rngs (rng_streams (ex_train_step True)))
              (get_model_inputs ex_lib (model (model_with_aux (ex_train_step True)))
                 (Context_new 0 (mock_batch_from_elem_spec ex_lib 2) PNone))
              None True)
           ''params'' = Some (PDict (fmupd ''w'' (Leaf 1) fmempty))"
    by (simp add: ex_defs)
  have o: "opt_init (optimizer (ex_train_step True)) (PDict (fmupd ''w'' (Leaf 1) fmempty))
           = PTuple []"
    by (simp add: ex_defs)
  show ?thesis
    using h1 h2 o init_returns_state_at_step_zero [OF h1 h2 h3]
    by simp
qed

text \<open>
  The claim as it was stated, for every TrainStep, fails on one whose references are
  not resolved, where the guard of \<open>init\<close> raises, and on a resolved one whose model
  has no parameters, where the subscript \<^verbatim>\<open>["params"]\<close> raises.
\<close>

theorem init_unresolved_counterexample:
  "TrainStep_init ex_lib (ex_train_step False) 2 None = Inl RootCfgNotResolved
   \<and> TrainStep_init ex_lib
       ((ex_train_step True)
          \<lparr>model_with_aux :=
             (ex_model_with_aux True)
               \<lparr>model := ex_model\<lparr>module_init := (\<lambda>rngs inputs method is_training. fmempty)\<rparr>\<rparr>\<rparr>)
       2 None = Inl KeyError"
  by (simp add: TrainStep_init_def TrainStep__init_def ModelWithAux_init_def
        assert_root_cfg_resolved_def ex_train_step_def ex_model_with_aux_def)

end
